theory Spec2Isabelle
  imports Complex_Main "HOL-Library.Word"
begin

unbundle bit_operations_syntax

section \<open>The AT91 USART as SPI controller: integers, registers, bit fields\<close>

text \<open>
  This theory embeds \<^verbatim>\<open>drivers/spi/spi-at91-usart.c\<close>. The driver is built for the
  32-bit ARM AT91 family: \<^verbatim>\<open>unsigned int\<close>, \<^verbatim>\<open>int\<close>, \<^verbatim>\<open>u32\<close>, \<^verbatim>\<open>unsigned long\<close>
  and pointers are all 32 bits wide there, unsigned arithmetic wraps modulo \<open>2 ^ 32\<close>,
  and the kernel is compiled so that signed arithmetic wraps too.
\<close>

type_synonym u8 = "8 word"
type_synonym u32 = "32 word"

text \<open>The register offsets \<^verbatim>\<open>US_CR\<close> ... \<^verbatim>\<open>US_VERSION\<close> (lines 21-29).\<close>

datatype reg = US_CR | US_MR | US_IER | US_IDR | US_CSR | US_RHR | US_THR | US_BRGR | US_VERSION

text \<open>
  Kernel macros the file uses and does not define: \<^verbatim>\<open>BIT(n)\<close> is \<^verbatim>\<open>1UL << n\<close>,
  \<^verbatim>\<open>GENMASK(h, l)\<close> has the bits \<open>l\<close> to \<open>h\<close> set, and \<^verbatim>\<open>DIV_ROUND_UP(n, d)\<close> is
  \<^verbatim>\<open>((n) + (d) - 1) / (d)\<close> in the type of its operands, here 32-bit unsigned. Where
  the divisor is a variable, the caller's model checks it for zero.
\<close>

definition BIT :: "nat \<Rightarrow> u32" where
  "BIT n = push_bit n 1"

definition GENMASK :: "nat \<Rightarrow> nat \<Rightarrow> u32" where
  "GENMASK h l = push_bit l (mask (Suc h - l))"

definition DIV_ROUND_UP :: "u32 \<Rightarrow> u32 \<Rightarrow> u32" where
  "DIV_ROUND_UP n d = (n + d - 1) div d"

definition US_CR_RSTRX :: u32 where "US_CR_RSTRX = BIT 2"
definition US_CR_RSTTX :: u32 where "US_CR_RSTTX = BIT 3"
definition US_CR_RXEN :: u32 where "US_CR_RXEN = BIT 4"
definition US_CR_RXDIS :: u32 where "US_CR_RXDIS = BIT 5"
definition US_CR_TXEN :: u32 where "US_CR_TXEN = BIT 6"
definition US_CR_TXDIS :: u32 where "US_CR_TXDIS = BIT 7"

definition US_MR_SPI_MASTER :: u32 where "US_MR_SPI_MASTER = 0x0E"
definition US_MR_CHRL :: u32 where "US_MR_CHRL = GENMASK 7 6"
definition US_MR_CPHA :: u32 where "US_MR_CPHA = BIT 8"
definition US_MR_CPOL :: u32 where "US_MR_CPOL = BIT 16"
definition US_MR_CLKO :: u32 where "US_MR_CLKO = BIT 18"
definition US_MR_WRDBT :: u32 where "US_MR_WRDBT = BIT 20"
definition US_MR_LOOP :: u32 where "US_MR_LOOP = BIT 15"

definition US_IR_RXRDY :: u32 where "US_IR_RXRDY = BIT 0"
definition US_IR_TXRDY :: u32 where "US_IR_TXRDY = BIT 1"
definition US_IR_OVRE :: u32 where "US_IR_OVRE = BIT 5"

definition US_BRGR_SIZE :: u32 where "US_BRGR_SIZE = BIT 16"

definition US_MIN_CLK_DIV :: u32 where "US_MIN_CLK_DIV = 0x06"
definition US_MAX_CLK_DIV :: u32 where "US_MAX_CLK_DIV = BIT 16"

definition US_RESET :: u32 where "US_RESET = US_CR_RSTRX OR US_CR_RSTTX"
definition US_DISABLE :: u32 where "US_DISABLE = US_CR_RXDIS OR US_CR_TXDIS"
definition US_ENABLE :: u32 where "US_ENABLE = US_CR_RXEN OR US_CR_TXEN"
definition US_OVRE_RXRDY_IRQS :: u32 where "US_OVRE_RXRDY_IRQS = US_IR_OVRE OR US_IR_RXRDY"

definition US_INIT :: u32 where
  "US_INIT = US_MR_SPI_MASTER OR US_MR_CHRL OR US_MR_CLKO OR US_MR_WRDBT"

text \<open>
  Constants of the kernel headers that the file names: the mode flags of
  \<^verbatim>\<open>linux/spi/spi.h\<close>, the error numbers and the two interrupt return values.
\<close>

definition SPI_CPHA :: u32 where "SPI_CPHA = 0x01"
definition SPI_CPOL :: u32 where "SPI_CPOL = 0x02"
definition SPI_LOOP :: u32 where "SPI_LOOP = 0x20"

definition EIO :: int where "EIO = 5"
definition ENOMEM :: int where "ENOMEM = 12"
definition EINVAL :: int where "EINVAL = 22"

datatype irqreturn = IRQ_NONE | IRQ_HANDLED

section \<open>State\<close>

text \<open>
  Everything the driver does to the outside is logged, in program order: taking and
  releasing the spinlock, every register access with the value moved, the busy-wait
  hint, the allocator call, every access to a transfer buffer with its index, and
  every store to a field that the polling context and the interrupt handler share: the
  status snapshot, the failure flag, the transfer pointer and the two remaining
  counters, an assignment to a counter being told apart from a decrement.
\<close>

datatype action =
    SpinLock
  | SpinUnlock
  | Readl reg u32
  | Writel reg u32
  | Readb reg u8
  | Writeb reg u8
  | CpuRelax
  | Kzalloc bool
  | LoadTx nat
  | StoreRx nat u8
  | StoreStatus u32
  | StoreFailed bool
  | StoreTransfer
  | StoreTxRemaining u32
  | StoreRxRemaining u32
  | DecTxRemaining
  | DecRxRemaining

text \<open>
  The device behind \<^verbatim>\<open>regs\<close>. The mode and baud-rate registers hold what was written
  last; a write to the interrupt-enable register sets bits of the interrupt mask and a
  write to the interrupt-disable register clears them; the command register and the
  transmit holding register are write-only and keep nothing that the driver reads back.
\<close>

record usart_regs =
  mr :: u32
  imr :: u32
  brgr :: u32

record spi_transfer =
  tx_buf :: "u8 list"
  rx_buf :: "u8 list"
  len :: u32
  speed_hz :: u32

text \<open>
  \<^verbatim>\<open>struct at91_usart_spi\<close> (lines 74-91). \<^verbatim>\<open>current_transfer\<close> is the transfer the
  pointer refers to: until line 228 of a call has run it is the transfer of the call
  before. The transmit and receive steps dereference it without a check, and before
  line 228 of the first call it is \<^verbatim>\<open>NULL\<close>: the model covers the controller once a
  first call has set the pointer. The device, clock and interrupt handles carry no
  data of their own; \<open>trace\<close> is the log.
\<close>

record at91_usart_spi =
  current_transfer :: spi_transfer
  regs :: usart_regs
  current_tx_remaining_bytes :: u32
  current_rx_remaining_bytes :: u32
  spi_clk :: u32
  status :: u32
  xfer_failed :: bool
  trace :: "action list"

text \<open>
  The fields of \<^verbatim>\<open>struct spi_device\<close> that the driver reads. \<^verbatim>\<open>controller_state\<close>
  points to one \<^verbatim>\<open>u32\<close> on the heap or is \<^verbatim>\<open>NULL\<close>.
\<close>

record spi_device =
  bits_per_word :: u8
  mode :: u32
  controller_state :: "u32 option"

record spi_controller =
  max_speed_hz :: u32
  min_speed_hz :: u32

section \<open>Register access (lines 63-72)\<close>

definition reg_write :: "reg \<Rightarrow> u32 \<Rightarrow> usart_regs \<Rightarrow> usart_regs" where
  "reg_write r v h =
     (case r of
        US_MR \<Rightarrow> h\<lparr>mr := v\<rparr>
      | US_IER \<Rightarrow> h\<lparr>imr := imr h OR v\<rparr>
      | US_IDR \<Rightarrow> h\<lparr>imr := imr h AND NOT v\<rparr>
      | US_BRGR \<Rightarrow> h\<lparr>brgr := v\<rparr>
      | _ \<Rightarrow> h)"

definition at91_usart_spi_writel :: "reg \<Rightarrow> u32 \<Rightarrow> at91_usart_spi \<Rightarrow> at91_usart_spi" where
  "at91_usart_spi_writel r v aus =
     aus\<lparr>regs := reg_write r v (regs aus), trace := trace aus @ [Writel r v]\<rparr>"

definition at91_usart_spi_writeb :: "reg \<Rightarrow> u8 \<Rightarrow> at91_usart_spi \<Rightarrow> at91_usart_spi" where
  "at91_usart_spi_writeb r v aus = aus\<lparr>trace := trace aus @ [Writeb r v]\<rparr>"

text \<open>Reading the mode register gives its content; the read is logged.\<close>

definition at91_usart_spi_readl_MR :: "at91_usart_spi \<Rightarrow> u32 \<times> at91_usart_spi" where
  "at91_usart_spi_readl_MR aus =
     (mr (regs aus), aus\<lparr>trace := trace aus @ [Readl US_MR (mr (regs aus))]\<rparr>)"

section \<open>Status helpers, transmit and receive steps (lines 93-140)\<close>

definition at91_usart_spi_tx_ready :: "at91_usart_spi \<Rightarrow> u32" where
  "at91_usart_spi_tx_ready aus = status aus AND US_IR_TXRDY"

definition at91_usart_spi_rx_ready :: "at91_usart_spi \<Rightarrow> u32" where
  "at91_usart_spi_rx_ready aus = status aus AND US_IR_RXRDY"

definition at91_usart_spi_check_overrun :: "at91_usart_spi \<Rightarrow> u32" where
  "at91_usart_spi_check_overrun aus = status aus AND US_IR_OVRE"

text \<open>The value \<open>csr\<close> is what the device's status register holds at the read.\<close>

definition at91_usart_spi_read_status :: "u32 \<Rightarrow> at91_usart_spi \<Rightarrow> u32 \<times> at91_usart_spi" where
  "at91_usart_spi_read_status csr aus =
     (csr, aus\<lparr>status := csr, trace := trace aus @ [Readl US_CSR csr, StoreStatus csr]\<rparr>)"

text \<open>
  The transmit step indexes with \<^verbatim>\<open>unsigned int\<close>. An index outside the buffer is
  undefined in C; the load is logged with its index.
\<close>

definition at91_usart_spi_tx :: "at91_usart_spi \<Rightarrow> at91_usart_spi" where
  "at91_usart_spi_tx aus =
     (let l = len (current_transfer aus);
          remaining = current_tx_remaining_bytes aus;
          tx = tx_buf (current_transfer aus)
      in if remaining = 0 then aus
         else if at91_usart_spi_tx_ready aus \<noteq> 0 then
           (let i = unat (l - remaining);
                aus1 = aus\<lparr>trace := trace aus @ [LoadTx i]\<rparr>;
                aus2 = at91_usart_spi_writeb US_THR (tx ! i) aus1
            in aus2\<lparr>current_tx_remaining_bytes := current_tx_remaining_bytes aus2 - 1,
                    trace := trace aus2 @ [DecTxRemaining]\<rparr>)
         else aus)"

text \<open>
  The receive step declares \<^verbatim>\<open>len\<close> and \<^verbatim>\<open>remaining\<close> as \<^verbatim>\<open>int\<close>: the difference is
  the signed reading of the 32-bit difference, and the byte stored is the one at that
  offset from \<^verbatim>\<open>rx_buf\<close> in the 32-bit address space. \<open>rhr\<close> is what the receive holding
  register gives when it is read.
\<close>

definition rx_index :: "u32 \<Rightarrow> u32 \<Rightarrow> nat" where
  "rx_index l remaining = nat (sint (l - remaining) mod 2 ^ 32)"

definition at91_usart_spi_rx :: "u8 \<Rightarrow> at91_usart_spi \<Rightarrow> at91_usart_spi" where
  "at91_usart_spi_rx rhr aus =
     (let l = len (current_transfer aus);
          remaining = current_rx_remaining_bytes aus;
          rx = rx_buf (current_transfer aus)
      in if remaining = 0 then aus
         else
           (let i = rx_index l remaining
            in aus\<lparr>current_transfer := (current_transfer aus)\<lparr>rx_buf := rx[i := rhr]\<rparr>,
                   current_rx_remaining_bytes := current_rx_remaining_bytes aus - 1,
                   trace := trace aus @ [Readb US_RHR rhr, StoreRx i rhr, DecRxRemaining]\<rparr>))"

section \<open>Transfer speed (lines 142-148)\<close>

text \<open>A transfer speed of zero makes the division fault: the value \<open>None\<close>.\<close>

definition at91_usart_spi_set_xfer_speed ::
  "at91_usart_spi \<Rightarrow> spi_transfer \<Rightarrow> at91_usart_spi option" where
  "at91_usart_spi_set_xfer_speed aus xfer =
     (if speed_hz xfer = 0 then None
      else Some (at91_usart_spi_writel US_BRGR (DIV_ROUND_UP (spi_clk aus) (speed_hz xfer)) aus))"

section \<open>Interrupt handler (lines 150-174)\<close>

definition spin_lock :: "at91_usart_spi \<Rightarrow> at91_usart_spi" where
  "spin_lock aus = aus\<lparr>trace := trace aus @ [SpinLock]\<rparr>"

definition spin_unlock :: "at91_usart_spi \<Rightarrow> at91_usart_spi" where
  "spin_unlock aus = aus\<lparr>trace := trace aus @ [SpinUnlock]\<rparr>"

definition at91_usart_spi_interrupt ::
  "u32 \<Rightarrow> u8 \<Rightarrow> at91_usart_spi \<Rightarrow> irqreturn \<times> at91_usart_spi" where
  "at91_usart_spi_interrupt csr rhr aus0 =
     (let aus1 = spin_lock aus0;
          aus = snd (at91_usart_spi_read_status csr aus1)
      in if at91_usart_spi_check_overrun aus \<noteq> 0 then
           (let aus2 = aus\<lparr>xfer_failed := True, trace := trace aus @ [StoreFailed True]\<rparr>;
                aus3 = at91_usart_spi_writel US_IDR (US_IR_OVRE OR US_IR_RXRDY) aus2
            in (IRQ_HANDLED, spin_unlock aus3))
         else if at91_usart_spi_rx_ready aus \<noteq> 0 then
           (IRQ_HANDLED, spin_unlock (at91_usart_spi_rx rhr aus))
         else (IRQ_NONE, spin_unlock aus))"

section \<open>Per-device setup and cleanup (lines 176-218, 272-278)\<close>

text \<open>
  \<open>alloc_ok\<close> says whether \<^verbatim>\<open>kzalloc\<close> would succeed; the allocator is called only when
  the device has no state yet. The debug messages are not modelled.
\<close>

definition at91_usart_spi_setup ::
  "bool \<Rightarrow> spi_device \<Rightarrow> at91_usart_spi \<Rightarrow> int \<times> spi_device \<times> at91_usart_spi" where
  "at91_usart_spi_setup alloc_ok spi aus0 =
     (let ausd = controller_state spi;
          (mr0, aus) = at91_usart_spi_readl_MR aus0;
          bits = bits_per_word spi
      in if bits \<noteq> 8 then (- EINVAL, spi, aus)
         else
           (let mr1 = (if mode spi AND SPI_CPOL \<noteq> 0 then mr0 OR US_MR_CPOL
                       else mr0 AND NOT US_MR_CPOL);
                mr2 = (if mode spi AND SPI_CPHA \<noteq> 0 then mr1 OR US_MR_CPHA
                       else mr1 AND NOT US_MR_CPHA);
                mr3 = (if mode spi AND SPI_LOOP \<noteq> 0 then mr2 OR US_MR_LOOP
                       else mr2 AND NOT US_MR_LOOP)
            in case ausd of
                 None \<Rightarrow>
                   (let aus' = aus\<lparr>trace := trace aus @ [Kzalloc alloc_ok]\<rparr>
                    in if \<not> alloc_ok then (- ENOMEM, spi, aus')
                       else (0, spi\<lparr>controller_state := Some mr3\<rparr>, aus'))
               | Some _ \<Rightarrow> (0, spi\<lparr>controller_state := Some mr3\<rparr>, aus)))"

definition at91_usart_spi_cleanup :: "spi_device \<Rightarrow> spi_device" where
  "at91_usart_spi_cleanup spi = spi\<lparr>controller_state := None\<rparr>"

section \<open>Message bracket and initialisation (lines 247-284)\<close>

text \<open>
  \<^verbatim>\<open>prepare_message\<close> dereferences the device's state after its first two register
  writes; with no state there the kernel faults, which is the value \<open>None\<close>.
\<close>

definition at91_usart_spi_prepare_message ::
  "spi_device \<Rightarrow> at91_usart_spi \<Rightarrow> (int \<times> at91_usart_spi) option" where
  "at91_usart_spi_prepare_message spi aus =
     (let ausd = controller_state spi;
          aus1 = at91_usart_spi_writel US_CR US_ENABLE aus;
          aus2 = at91_usart_spi_writel US_IER US_OVRE_RXRDY_IRQS aus1
      in case ausd of
           None \<Rightarrow> None
         | Some v \<Rightarrow> Some (0, at91_usart_spi_writel US_MR v aus2))"

definition at91_usart_spi_unprepare_message :: "at91_usart_spi \<Rightarrow> int \<times> at91_usart_spi" where
  "at91_usart_spi_unprepare_message aus =
     (let aus1 = at91_usart_spi_writel US_CR (US_RESET OR US_DISABLE) aus;
          aus2 = at91_usart_spi_writel US_IDR US_OVRE_RXRDY_IRQS aus1
      in (0, aus2))"

definition at91_usart_spi_init :: "at91_usart_spi \<Rightarrow> at91_usart_spi" where
  "at91_usart_spi_init aus =
     at91_usart_spi_writel US_CR (US_RESET OR US_DISABLE) (at91_usart_spi_writel US_MR US_INIT aus)"

section \<open>One transfer (lines 220-245)\<close>

text \<open>
  \<^verbatim>\<open>transfer_one\<close> runs in the polling context while the interrupt handler may run
  between any two of its steps: the controller calls it after \<^verbatim>\<open>prepare_message\<close>, which
  has enabled both interrupt sources, and nothing in the function masks interrupts or
  takes the lock. The polling context is a small machine with one control point before
  every statement at which an interrupt makes a difference: the five statements that
  arm the transfer (lines 226 to 230), the two halves of the loop condition (the
  counters are read first, the failure flag after them), the status read, the transmit
  step, the busy-wait hint, and the check after the loop. A transfer speed of zero makes
  the division at line 226 fault; the call is then at \<open>Faulted\<close> and never returns.

  Each step makes at most one access that the handler can disturb or be disturbed by:
  one read of a field that the handler writes (the status snapshot, the failure flag,
  the receive counter) or one write of a field that the handler uses (those three and
  the transfer pointer). So the handler running in the middle of a step acts like the
  handler running just before or just after it.
\<close>

datatype pc =
    SetSpeed
  | ClearFailed
  | SetTransfer
  | SetTxRemaining
  | SetRxRemaining
  | LoopCounters
  | LoopFailed
  | ReadStatus
  | Tx
  | Relax
  | FinalCheck
  | Returned int
  | Faulted

definition cpu_relax :: "at91_usart_spi \<Rightarrow> at91_usart_spi" where
  "cpu_relax aus = aus\<lparr>trace := trace aus @ [CpuRelax]\<rparr>"

text \<open>
  One step of the polling context in a call for the transfer \<open>xfer\<close>; \<open>csr\<close> is the
  content of the status register, used by the step that reads it. The error message
  before \<^verbatim>\<open>return -EIO\<close> is not modelled.
\<close>

fun poll_step :: "spi_transfer \<Rightarrow> u32 \<Rightarrow> pc \<times> at91_usart_spi \<Rightarrow> pc \<times> at91_usart_spi" where
  "poll_step xfer csr (SetSpeed, aus) =
     (case at91_usart_spi_set_xfer_speed aus xfer of
        None \<Rightarrow> (Faulted, aus)
      | Some aus1 \<Rightarrow> (ClearFailed, aus1))"
| "poll_step xfer csr (ClearFailed, aus) =
     (SetTransfer, aus\<lparr>xfer_failed := False, trace := trace aus @ [StoreFailed False]\<rparr>)"
| "poll_step xfer csr (SetTransfer, aus) =
     (SetTxRemaining, aus\<lparr>current_transfer := xfer, trace := trace aus @ [StoreTransfer]\<rparr>)"
| "poll_step xfer csr (SetTxRemaining, aus) =
     (SetRxRemaining,
      aus\<lparr>current_tx_remaining_bytes := len xfer,
          trace := trace aus @ [StoreTxRemaining (len xfer)]\<rparr>)"
| "poll_step xfer csr (SetRxRemaining, aus) =
     (LoopCounters,
      aus\<lparr>current_rx_remaining_bytes := len xfer,
          trace := trace aus @ [StoreRxRemaining (len xfer)]\<rparr>)"
| "poll_step xfer csr (LoopCounters, aus) =
     (if current_tx_remaining_bytes aus \<noteq> 0 \<or> current_rx_remaining_bytes aus \<noteq> 0
      then (LoopFailed, aus) else (FinalCheck, aus))"
| "poll_step xfer csr (LoopFailed, aus) =
     (if \<not> xfer_failed aus then (ReadStatus, aus) else (FinalCheck, aus))"
| "poll_step xfer csr (ReadStatus, aus) = (Tx, snd (at91_usart_spi_read_status csr aus))"
| "poll_step xfer csr (Tx, aus) = (Relax, at91_usart_spi_tx aus)"
| "poll_step xfer csr (Relax, aus) = (LoopCounters, cpu_relax aus)"
| "poll_step xfer csr (FinalCheck, aus) =
     (if xfer_failed aus then (Returned (- EIO), aus) else (Returned 0, aus))"
| "poll_step xfer csr (Returned r, aus) = (Returned r, aus)"
| "poll_step xfer csr (Faulted, aus) = (Faulted, aus)"

text \<open>
  The device raises its interrupt line when a status bit that is enabled in the
  interrupt mask is set; the handler then runs to its end.
\<close>

definition irq_raised :: "u32 \<Rightarrow> at91_usart_spi \<Rightarrow> bool" where
  "irq_raised csr aus \<longleftrightarrow> csr AND imr (regs aus) \<noteq> 0"

definition deliver :: "u32 \<Rightarrow> u8 \<Rightarrow> at91_usart_spi \<Rightarrow> at91_usart_spi" where
  "deliver csr rhr aus =
     (if irq_raised csr aus then snd (at91_usart_spi_interrupt csr rhr aus) else aus)"

text \<open>
  A schedule is the list of what happens during the call, in order: \<open>Poll csr\<close> lets
  the polling context take its next step, \<open>Irq csr rhr\<close> is a moment at which the device
  shows status \<open>csr\<close> and holds \<open>rhr\<close> in its receive register. Nothing of the call
  happens after it has returned or faulted.
\<close>

datatype event = Poll u32 | Irq u32 u8

definition step :: "spi_transfer \<Rightarrow> event \<Rightarrow> pc \<times> at91_usart_spi \<Rightarrow> pc \<times> at91_usart_spi" where
  "step xfer e c =
     (case fst c of
        Returned r \<Rightarrow> c
      | Faulted \<Rightarrow> c
      | _ \<Rightarrow> (case e of
                Poll csr \<Rightarrow> poll_step xfer csr c
              | Irq csr rhr \<Rightarrow> (fst c, deliver csr rhr (snd c))))"

definition run ::
  "spi_transfer \<Rightarrow> event list \<Rightarrow> pc \<times> at91_usart_spi \<Rightarrow> pc \<times> at91_usart_spi" where
  "run xfer sched c = fold (step xfer) sched c"

text \<open>
  The call under a schedule, from its first statement: \<open>Some\<close> of the return value and
  the final state, or \<open>None\<close> when it has not returned: the division faulted, or the loop
  is still spinning when the schedule ends.
\<close>

definition at91_usart_spi_transfer_one ::
  "spi_transfer \<Rightarrow> event list \<Rightarrow> at91_usart_spi \<Rightarrow> (int \<times> at91_usart_spi) option" where
  "at91_usart_spi_transfer_one xfer sched aus =
     (case run xfer sched (SetSpeed, aus) of
        (Returned r, aus') \<Rightarrow> Some (r, aus')
      | _ \<Rightarrow> None)"

section \<open>Attach (lines 286-402)\<close>

text \<open>
  What the calls into the rest of the kernel give back during \<^verbatim>\<open>probe\<close>: whether the
  memory resource exists, the interrupt number, the error of each call that can fail
  (zero for success), the clock rate, whether the parent has a device-tree node, and for
  each chip-select entry the number \<^verbatim>\<open>of_get_named_gpio\<close> gives, whether
  \<^verbatim>\<open>gpio_is_valid\<close> holds of it, and what \<^verbatim>\<open>devm_gpio_request_one\<close> returns for it.
\<close>

record probe_env =
  pe_regs :: bool
  pe_irq :: int
  pe_clk_err :: int
  pe_alloc :: bool
  pe_of_node :: bool
  pe_cs_gpios :: "(int \<times> bool \<times> int) list"
  pe_ioremap_err :: int
  pe_request_irq :: int
  pe_clk_enable :: int
  pe_register :: int
  pe_clk_rate :: u32

text \<open>The loop of \<^verbatim>\<open>at91_usart_gpio_setup\<close> over the chip-select entries.\<close>

fun gpio_requests :: "(int \<times> bool \<times> int) list \<Rightarrow> int" where
  "gpio_requests [] = 0"
| "gpio_requests ((cs_gpio, valid, ret) # rest) =
     (if cs_gpio < 0 then cs_gpio
      else if valid \<and> ret \<noteq> 0 then ret
      else gpio_requests rest)"

definition at91_usart_gpio_setup :: "probe_env \<Rightarrow> int" where
  "at91_usart_gpio_setup env =
     (if \<not> pe_of_node env then - EINVAL else gpio_requests (pe_cs_gpios env))"

text \<open>
  \<^verbatim>\<open>probe\<close> returns its error code, the controller it has registered (none when it
  fails: the controller is put back), and the driver state. The clock rate is read
  three times; the clock is taken not to change in between. Arithmetic on the rate is
  in \<^verbatim>\<open>unsigned long\<close>.
\<close>

definition at91_usart_spi_probe ::
  "probe_env \<Rightarrow> at91_usart_spi \<Rightarrow> int \<times> spi_controller option \<times> at91_usart_spi" where
  "at91_usart_spi_probe env aus =
     (if \<not> pe_regs env then (- EINVAL, None, aus)
      else if pe_irq env < 0 then (pe_irq env, None, aus)
      else if pe_clk_err env \<noteq> 0 then (pe_clk_err env, None, aus)
      else if \<not> pe_alloc env then (- ENOMEM, None, aus)
      else if at91_usart_gpio_setup env \<noteq> 0 then (at91_usart_gpio_setup env, None, aus)
      else
        (let controller = \<lparr>max_speed_hz = DIV_ROUND_UP (pe_clk_rate env) US_MIN_CLK_DIV,
                            min_speed_hz = DIV_ROUND_UP (pe_clk_rate env) US_MAX_CLK_DIV\<rparr>
         in if pe_ioremap_err env \<noteq> 0 then (pe_ioremap_err env, None, aus)
            else if pe_request_irq env \<noteq> 0 then (pe_request_irq env, None, aus)
            else if pe_clk_enable env \<noteq> 0 then (pe_clk_enable env, None, aus)
            else
              (let aus1 = at91_usart_spi_init (aus\<lparr>spi_clk := pe_clk_rate env\<rparr>)
               in if pe_register env \<noteq> 0 then (pe_register env, None, aus1)
                  else (0, Some controller, aus1))))"

section \<open>Predicates on schedules, control points and logs\<close>







fun is_lock_op :: "action \<Rightarrow> bool" where
  "is_lock_op SpinLock = True"
| "is_lock_op SpinUnlock = True"
| "is_lock_op _ = False"

text \<open>
  \<open>annotate h acts\<close> pairs every action with whether the spinlock is held when it
  is performed, \<open>h\<close> being the state of the lock before the first one; \<open>lock_held\<close> is
  the state of the lock after a log that started with the lock free.
\<close>

fun annotate :: "bool \<Rightarrow> action list \<Rightarrow> (bool \<times> action) list" where
  "annotate h [] = []"
| "annotate h (SpinLock # acts) = (h, SpinLock) # annotate True acts"
| "annotate h (SpinUnlock # acts) = (h, SpinUnlock) # annotate False acts"
| "annotate h (a # acts) = (h, a) # annotate h acts"

fun lock_after :: "bool \<Rightarrow> action list \<Rightarrow> bool" where
  "lock_after h [] = h"
| "lock_after h (SpinLock # acts) = lock_after True acts"
| "lock_after h (SpinUnlock # acts) = lock_after False acts"
| "lock_after h (a # acts) = lock_after h acts"

definition lock_held :: "action list \<Rightarrow> bool" where
  "lock_held acts = lock_after False acts"

fun is_status_read :: "action \<Rightarrow> bool" where
  "is_status_read (Readl r v) = (r = US_CSR)"
| "is_status_read _ = False"

text \<open>Every read of the status register in the log is made with the lock held.\<close>

definition status_reads_locked :: "action list \<Rightarrow> bool" where
  "status_reads_locked acts = list_all (\<lambda>(h, a). is_status_read a \<longrightarrow> h) (annotate False acts)"

text \<open>
  The pattern of the driver's locking during a transfer. With the lock free: the
  busy-wait hint, the load from the transmit buffer, the write of a byte to a register,
  the decrement of the transmit counter, the assignments to the transfer pointer and to
  the two counters, and the clearing of the failure flag. With the lock held: the read
  of a byte from a register, the store to the receive buffer, the decrement of the
  receive counter, and the setting of the failure flag. The status register is read,
  and the snapshot stored, on both sides.
\<close>

fun respects_lock :: "bool \<times> action \<Rightarrow> bool" where
  "respects_lock (h, CpuRelax) = (\<not> h)"
| "respects_lock (h, LoadTx i) = (\<not> h)"
| "respects_lock (h, Writeb r v) = (\<not> h)"
| "respects_lock (h, DecTxRemaining) = (\<not> h)"
| "respects_lock (h, StoreTransfer) = (\<not> h)"
| "respects_lock (h, StoreTxRemaining n) = (\<not> h)"
| "respects_lock (h, StoreRxRemaining n) = (\<not> h)"
| "respects_lock (h, StoreFailed b) = (h = b)"
| "respects_lock (h, Readb r v) = h"
| "respects_lock (h, StoreRx i v) = h"
| "respects_lock (h, DecRxRemaining) = h"
| "respects_lock (h, a) = True"

definition lock_pattern :: "action list \<Rightarrow> bool" where
  "lock_pattern acts = list_all respects_lock (annotate False acts)"


text \<open>
  What the control point says about the cursor: the check after the loop is reached
  with both counters at zero or the failure flag set, and a return value is zero only
  with both counters at zero and the flag clear, \<^verbatim>\<open>-EIO\<close> only with the flag set.
\<close>

fun outcome_inv :: "pc \<times> at91_usart_spi \<Rightarrow> bool" where
  "outcome_inv (FinalCheck, aus) =
     ((current_tx_remaining_bytes aus = 0 \<and> current_rx_remaining_bytes aus = 0) \<or> xfer_failed aus)"
| "outcome_inv (Returned r, aus) =
     ((r = 0 \<and> current_tx_remaining_bytes aus = 0 \<and> current_rx_remaining_bytes aus = 0
         \<and> \<not> xfer_failed aus)
      \<or> (r = - EIO \<and> xfer_failed aus))"
| "outcome_inv (p, aus) = True"


text \<open>
  The state of a call in which an overrun was handled before line 227: both interrupt
  sources are masked and, from line 227 on, the failure flag is clear; in the loop the
  receive counter is not zero. The check after the loop and the return are not part
  of it.
\<close>

fun overrun_lost :: "pc \<times> at91_usart_spi \<Rightarrow> bool" where
  "overrun_lost (SetSpeed, aus) = (imr (regs aus) = 0)"
| "overrun_lost (ClearFailed, aus) = (imr (regs aus) = 0)"
| "overrun_lost (SetTransfer, aus) = (imr (regs aus) = 0 \<and> \<not> xfer_failed aus)"
| "overrun_lost (SetTxRemaining, aus) = (imr (regs aus) = 0 \<and> \<not> xfer_failed aus)"
| "overrun_lost (SetRxRemaining, aus) = (imr (regs aus) = 0 \<and> \<not> xfer_failed aus)"
| "overrun_lost (FinalCheck, aus) = False"
| "overrun_lost (Returned r, aus) = False"
| "overrun_lost (Faulted, aus) = True"
| "overrun_lost (p, aus) =
     (imr (regs aus) = 0 \<and> \<not> xfer_failed aus \<and> current_rx_remaining_bytes aus \<noteq> 0)"

section \<open>Example inputs\<close>

text \<open>
  A controller on a 150 MHz clock with the two interrupt sources enabled, a device in
  mode 3, a transfer of three bytes at 1 MHz, and an attach in which every call succeeds.
\<close>

definition example_transfer :: spi_transfer where
  "example_transfer = \<lparr>tx_buf = [0x01, 0x02, 0x03], rx_buf = [0, 0, 0], len = 3, speed_hz = 1000000\<rparr>"

definition example_controller :: at91_usart_spi where
  "example_controller =
     \<lparr>current_transfer = example_transfer,
      regs = \<lparr>mr = 0x1400CE, imr = 0x21, brgr = 0\<rparr>,
      current_tx_remaining_bytes = 0,
      current_rx_remaining_bytes = 0,
      spi_clk = 150000000,
      status = 0,
      xfer_failed = False,
      trace = []\<rparr>"

definition example_device :: spi_device where
  "example_device = \<lparr>bits_per_word = 8, mode = 0x03, controller_state = None\<rparr>"

definition example_env :: probe_env where
  "example_env =
     \<lparr>pe_regs = True, pe_irq = 25, pe_clk_err = 0, pe_alloc = True, pe_of_node = True,
      pe_cs_gpios = [(10, True, 0)], pe_ioremap_err = 0, pe_request_irq = 0,
      pe_clk_enable = 0, pe_register = 0, pe_clk_rate = 150000000\<rparr>"

text \<open>
  In the example schedule the call first arms the transfer in five steps; then the
  three bytes go out one per loop iteration and the device answers each with an
  interrupt. The prefix and the suffix are the parts of a schedule before and after an
  interrupt that reports an overrun in place of the second answer.
\<close>

definition example_schedule :: "event list" where
  "example_schedule =
     [Poll 0, Poll 0, Poll 0, Poll 0, Poll 0,
      Poll 0, Poll 0, Poll 2, Poll 0, Poll 0, Irq 1 0xAA,
      Poll 0, Poll 0, Poll 2, Poll 0, Poll 0, Irq 1 0xBB,
      Poll 0, Poll 0, Poll 2, Poll 0, Poll 0, Irq 1 0xCC,
      Poll 0, Poll 0]"

definition example_prefix :: "event list" where
  "example_prefix =
     [Poll 0, Poll 0, Poll 0, Poll 0, Poll 0,
      Poll 0, Poll 0, Poll 2, Poll 0, Poll 0, Irq 1 0xAA, Poll 0, Poll 0, Poll 2]"

definition example_suffix :: "event list" where
  "example_suffix = [Irq 1 0xCC, Poll 0, Poll 0, Poll 2, Poll 0, Poll 0, Poll 0]"

text \<open>
  The example controller as the next message finds it after a transfer that was
  aborted with two bytes still to receive: \<^verbatim>\<open>prepare_message\<close> has enabled the two
  interrupt sources again, the failure flag and the counters are those of the aborted
  transfer. The next transfer has one byte.
\<close>

definition example_after_abort :: at91_usart_spi where
  "example_after_abort =
     example_controller\<lparr>current_tx_remaining_bytes := 1, current_rx_remaining_bytes := 2,
                        xfer_failed := True\<rparr>"

definition example_short_transfer :: spi_transfer where
  "example_short_transfer = \<lparr>tx_buf = [0x55], rx_buf = [0], len = 1, speed_hz = 1000000\<rparr>"

text \<open>
  The example controller with the transmit-ready source enabled in the interrupt mask
  besides the two that the driver enables.
\<close>

definition example_tx_irq_enabled :: at91_usart_spi where
  "example_tx_irq_enabled = example_controller\<lparr>regs := \<lparr>mr = 0x1400CE, imr = 0x23, brgr = 0\<rparr>\<rparr>"

section \<open>Facts about the building blocks\<close>

lemma bit_BIT: "bit (BIT m) n \<longleftrightarrow> n = m \<and> m < 32"
  by (auto simp: BIT_def bit_simps)

lemmas us_values =
  BIT_def GENMASK_def mask_eq_exp_minus_1 US_CR_RSTRX_def US_CR_RSTTX_def US_CR_RXEN_def
  US_CR_RXDIS_def US_CR_TXEN_def US_CR_TXDIS_def US_MR_SPI_MASTER_def US_MR_CHRL_def
  US_MR_CPHA_def US_MR_CPOL_def US_MR_CLKO_def US_MR_WRDBT_def US_MR_LOOP_def
  US_IR_RXRDY_def US_IR_TXRDY_def US_IR_OVRE_def US_MIN_CLK_DIV_def US_MAX_CLK_DIV_def
  US_RESET_def US_DISABLE_def US_ENABLE_def US_OVRE_RXRDY_IRQS_def US_INIT_def

lemma rx_index_unat: "rx_index l r = unat (l - r)"
proof -
  have "sint (l - r) mod 2 ^ 32 = uint (l - r)"
    by (simp add: uint_sint take_bit_eq_mod)
  then show ?thesis by (simp add: rx_index_def)
qed

lemma interrupt_unfold:
  "at91_usart_spi_interrupt csr rhr aus =
     (if csr AND US_IR_OVRE \<noteq> 0 then
        (IRQ_HANDLED,
         aus\<lparr>regs := (regs aus)\<lparr>imr := imr (regs aus) AND NOT (US_IR_OVRE OR US_IR_RXRDY)\<rparr>,
             status := csr, xfer_failed := True,
             trace := trace aus @ [SpinLock, Readl US_CSR csr, StoreStatus csr, StoreFailed True,
                                   Writel US_IDR (US_IR_OVRE OR US_IR_RXRDY), SpinUnlock]\<rparr>)
      else if csr AND US_IR_RXRDY \<noteq> 0 then
        (if current_rx_remaining_bytes aus \<noteq> 0 then
           (IRQ_HANDLED,
            aus\<lparr>current_transfer := (current_transfer aus)
                   \<lparr>rx_buf := (rx_buf (current_transfer aus))
                      [unat (len (current_transfer aus) - current_rx_remaining_bytes aus) := rhr]\<rparr>,
                current_rx_remaining_bytes := current_rx_remaining_bytes aus - 1,
                status := csr,
                trace := trace aus @ [SpinLock, Readl US_CSR csr, StoreStatus csr, Readb US_RHR rhr,
                   StoreRx (unat (len (current_transfer aus) - current_rx_remaining_bytes aus)) rhr,
                   DecRxRemaining, SpinUnlock]\<rparr>)
         else (IRQ_HANDLED,
               aus\<lparr>status := csr,
                   trace := trace aus @ [SpinLock, Readl US_CSR csr, StoreStatus csr, SpinUnlock]\<rparr>))
      else (IRQ_NONE,
            aus\<lparr>status := csr,
                trace := trace aus @ [SpinLock, Readl US_CSR csr, StoreStatus csr, SpinUnlock]\<rparr>))"
  by (simp add: at91_usart_spi_interrupt_def Let_def spin_lock_def spin_unlock_def
      at91_usart_spi_read_status_def at91_usart_spi_check_overrun_def at91_usart_spi_rx_ready_def
      at91_usart_spi_rx_def at91_usart_spi_writel_def reg_write_def rx_index_unat)

lemma tx_unfold:
  "at91_usart_spi_tx aus =
     (if current_tx_remaining_bytes aus \<noteq> 0 \<and> status aus AND US_IR_TXRDY \<noteq> 0 then
        aus\<lparr>current_tx_remaining_bytes := current_tx_remaining_bytes aus - 1,
            trace := trace aus @
              [LoadTx (unat (len (current_transfer aus) - current_tx_remaining_bytes aus)),
               Writeb US_THR (tx_buf (current_transfer aus) !
                  unat (len (current_transfer aus) - current_tx_remaining_bytes aus)),
               DecTxRemaining]\<rparr>
      else aus)"
  by (simp add: at91_usart_spi_tx_def Let_def at91_usart_spi_tx_ready_def at91_usart_spi_writeb_def)

lemma run_Nil [simp]: "run x [] c = c"
  by (simp add: run_def)

lemma run_Cons [simp]: "run x (e # es) c = run x es (step x e c)"
  by (simp add: run_def)

lemma run_append: "run x (es @ fs) c = run x fs (run x es c)"
  by (simp add: run_def)

lemma step_Returned [simp]: "step x e (Returned r, aus) = (Returned r, aus)"
  by (simp add: step_def)

lemma step_Faulted [simp]: "step x e (Faulted, aus) = (Faulted, aus)"
  by (simp add: step_def)

lemma run_Returned [simp]: "run x es (Returned r, aus) = (Returned r, aus)"
  by (induction es) simp_all

lemma run_Faulted [simp]: "run x es (Faulted, aus) = (Faulted, aus)"
  by (induction es) simp_all

lemma step_Irq:
  "step x (Irq csr rhr) (p, aus) =
     (p, case p of Returned r \<Rightarrow> aus | Faulted \<Rightarrow> aus | _ \<Rightarrow> deliver csr rhr aus)"
  by (cases p) (simp_all add: step_def)

lemma deliver_tx [simp]:
  "current_tx_remaining_bytes (deliver csr rhr aus) = current_tx_remaining_bytes aus"
  by (simp add: deliver_def interrupt_unfold)

lemma deliver_failed: "xfer_failed aus \<Longrightarrow> xfer_failed (deliver csr rhr aus)"
  by (simp add: deliver_def interrupt_unfold)

lemma deliver_rx_zero:
  "current_rx_remaining_bytes aus = 0 \<Longrightarrow> current_rx_remaining_bytes (deliver csr rhr aus) = 0"
  by (simp add: deliver_def interrupt_unfold)

lemma deliver_masked: "imr (regs aus) = 0 \<Longrightarrow> deliver csr rhr aus = aus"
  by (simp add: deliver_def irq_raised_def)

lemma poll_steps:
  "step x (Poll csr) (SetSpeed, aus) =
     (if speed_hz x = 0 then (Faulted, aus)
      else (ClearFailed,
            aus\<lparr>regs := (regs aus)\<lparr>brgr := DIV_ROUND_UP (spi_clk aus) (speed_hz x)\<rparr>,
                trace := trace aus @ [Writel US_BRGR (DIV_ROUND_UP (spi_clk aus) (speed_hz x))]\<rparr>))"
  "step x (Poll csr) (ClearFailed, aus) =
     (SetTransfer, aus\<lparr>xfer_failed := False, trace := trace aus @ [StoreFailed False]\<rparr>)"
  "step x (Poll csr) (SetTransfer, aus) =
     (SetTxRemaining, aus\<lparr>current_transfer := x, trace := trace aus @ [StoreTransfer]\<rparr>)"
  "step x (Poll csr) (SetTxRemaining, aus) =
     (SetRxRemaining,
      aus\<lparr>current_tx_remaining_bytes := len x, trace := trace aus @ [StoreTxRemaining (len x)]\<rparr>)"
  "step x (Poll csr) (SetRxRemaining, aus) =
     (LoopCounters,
      aus\<lparr>current_rx_remaining_bytes := len x, trace := trace aus @ [StoreRxRemaining (len x)]\<rparr>)"
  "step x (Poll csr) (LoopCounters, aus) =
     (if current_tx_remaining_bytes aus \<noteq> 0 \<or> current_rx_remaining_bytes aus \<noteq> 0
      then (LoopFailed, aus) else (FinalCheck, aus))"
  "step x (Poll csr) (LoopFailed, aus) =
     (if \<not> xfer_failed aus then (ReadStatus, aus) else (FinalCheck, aus))"
  "step x (Poll csr) (ReadStatus, aus) =
     (Tx, aus\<lparr>status := csr, trace := trace aus @ [Readl US_CSR csr, StoreStatus csr]\<rparr>)"
  "step x (Poll csr) (Tx, aus) = (Relax, at91_usart_spi_tx aus)"
  "step x (Poll csr) (Relax, aus) = (LoopCounters, aus\<lparr>trace := trace aus @ [CpuRelax]\<rparr>)"
  "step x (Poll csr) (FinalCheck, aus) =
     (if xfer_failed aus then (Returned (- EIO), aus) else (Returned 0, aus))"
  by (simp_all add: step_def at91_usart_spi_read_status_def cpu_relax_def
      at91_usart_spi_set_xfer_speed_def at91_usart_spi_writel_def reg_write_def)

text \<open>Evaluating the examples: everything unfolds to numerals.\<close>

lemmas example_defs =
  example_transfer_def example_controller_def example_device_def example_env_def
  example_schedule_def example_prefix_def example_suffix_def example_after_abort_def
  example_short_transfer_def example_tx_irq_enabled_def

lemmas eval_defs =
  at91_usart_spi_transfer_one_def at91_usart_spi_set_xfer_speed_def
  at91_usart_spi_writel_def reg_write_def DIV_ROUND_UP_def step_def deliver_def irq_raised_def
  interrupt_unfold tx_unfold at91_usart_spi_read_status_def cpu_relax_def us_values EIO_def

section \<open>The driving loop and its outcome\<close>

lemma step_outcome_inv: "outcome_inv c \<Longrightarrow> outcome_inv (step x e c)"
proof (cases c)
  case (Pair p aus)
  assume inv: "outcome_inv c"
  show ?thesis
  proof (cases e)
    case (Poll csr)
    with Pair inv show ?thesis
      by (cases p) (auto simp: poll_steps tx_unfold)
  next
    case (Irq csr rhr)
    with Pair inv show ?thesis
      by (cases p) (auto simp: step_Irq deliver_failed deliver_rx_zero)
  qed
qed

lemma run_outcome_inv: "outcome_inv c \<Longrightarrow> outcome_inv (run x sched c)"
  by (induction sched arbitrary: c) (simp_all add: step_outcome_inv)

text \<open>
  Claim C1. Five steps of the polling context with no interrupt between them, started
  at the loop condition: if a remaining counter is nonzero and the failure flag is
  clear, they are one iteration, which reads the status register and, when the status
  has transmit-ready and the transmit counter is nonzero, loads
  \<open>tx_buf[len - remaining]\<close>, writes it to the transmit holding register and decrements
  the transmit counter, and then is back at the loop condition; otherwise the loop is
  left and the call returns \<^verbatim>\<open>-EIO\<close> if the failure flag is set and 0 if not. Under
  every schedule, with interrupts anywhere from the first statement of the call on, a
  call that returns gives 0 exactly when both counters are zero and the failure flag
  is clear, and \<^verbatim>\<open>-EIO\<close> exactly when the failure flag is set.
\<close>

theorem transfer_one_driving_loop:
  "run xfer [Poll a, Poll b, Poll csr, Poll d, Poll e] (LoopCounters, aus) =
     (if (current_tx_remaining_bytes aus \<noteq> 0 \<or> current_rx_remaining_bytes aus \<noteq> 0)
          \<and> \<not> xfer_failed aus
      then
        (LoopCounters,
         if csr AND US_IR_TXRDY \<noteq> 0 \<and> current_tx_remaining_bytes aus \<noteq> 0 then
           aus\<lparr>current_tx_remaining_bytes := current_tx_remaining_bytes aus - 1,
               status := csr,
               trace := trace aus @
                 [Readl US_CSR csr, StoreStatus csr,
                  LoadTx (unat (len (current_transfer aus) - current_tx_remaining_bytes aus)),
                  Writeb US_THR (tx_buf (current_transfer aus) !
                     unat (len (current_transfer aus) - current_tx_remaining_bytes aus)),
                  DecTxRemaining, CpuRelax]\<rparr>
         else aus\<lparr>status := csr,
                  trace := trace aus @ [Readl US_CSR csr, StoreStatus csr, CpuRelax]\<rparr>)
      else (Returned (if xfer_failed aus then - EIO else 0), aus))
   \<and> (at91_usart_spi_transfer_one xfer sched aus0 = Some (r, aus') \<longrightarrow>
        (r = 0 \<longleftrightarrow> current_tx_remaining_bytes aus' = 0 \<and> current_rx_remaining_bytes aus' = 0
                   \<and> \<not> xfer_failed aus')
      \<and> (r = - EIO \<longleftrightarrow> xfer_failed aus'))"
proof -
  have A: "run xfer [Poll a, Poll b, Poll csr, Poll d, Poll e] (LoopCounters, aus) =
     (if (current_tx_remaining_bytes aus \<noteq> 0 \<or> current_rx_remaining_bytes aus \<noteq> 0)
          \<and> \<not> xfer_failed aus
      then
        (LoopCounters,
         if csr AND US_IR_TXRDY \<noteq> 0 \<and> current_tx_remaining_bytes aus \<noteq> 0 then
           aus\<lparr>current_tx_remaining_bytes := current_tx_remaining_bytes aus - 1,
               status := csr,
               trace := trace aus @
                 [Readl US_CSR csr, StoreStatus csr,
                  LoadTx (unat (len (current_transfer aus) - current_tx_remaining_bytes aus)),
                  Writeb US_THR (tx_buf (current_transfer aus) !
                     unat (len (current_transfer aus) - current_tx_remaining_bytes aus)),
                  DecTxRemaining, CpuRelax]\<rparr>
         else aus\<lparr>status := csr,
                  trace := trace aus @ [Readl US_CSR csr, StoreStatus csr, CpuRelax]\<rparr>)
      else (Returned (if xfer_failed aus then - EIO else 0), aus))"
  proof (cases "(current_tx_remaining_bytes aus \<noteq> 0 \<or> current_rx_remaining_bytes aus \<noteq> 0)
          \<and> \<not> xfer_failed aus")
    case True
    then have "run xfer [Poll a, Poll b] (LoopCounters, aus) = (ReadStatus, aus)"
      by (simp add: poll_steps)
    then have "run xfer ([Poll a, Poll b] @ [Poll csr, Poll d, Poll e]) (LoopCounters, aus)
       = run xfer [Poll csr, Poll d, Poll e] (ReadStatus, aus)"
      by (simp only: run_append)
    with True show ?thesis
      by (simp add: poll_steps tx_unfold)
  next
    case False
    then show ?thesis
      by (cases "xfer_failed aus") (simp_all add: poll_steps)
  qed
  have C: "(r = 0 \<longleftrightarrow> current_tx_remaining_bytes aus' = 0 \<and> current_rx_remaining_bytes aus' = 0
                   \<and> \<not> xfer_failed aus')
      \<and> (r = - EIO \<longleftrightarrow> xfer_failed aus')"
    if t: "at91_usart_spi_transfer_one xfer sched aus0 = Some (r, aus')"
  proof -
    from t have r: "run xfer sched (SetSpeed, aus0) = (Returned r, aus')"
      by (auto simp: at91_usart_spi_transfer_one_def split: prod.splits pc.splits)
    have "outcome_inv (run xfer sched (SetSpeed, aus0))"
      by (rule run_outcome_inv) simp
    with r have "(r = 0 \<and> current_tx_remaining_bytes aus' = 0
         \<and> current_rx_remaining_bytes aus' = 0 \<and> \<not> xfer_failed aus')
       \<or> (r = - EIO \<and> xfer_failed aus')"
      by simp
    then show ?thesis by (auto simp: EIO_def)
  qed
  from A C show ?thesis by blast
qed

theorem transfer_one_driving_loop_witness:
  "at91_usart_spi_transfer_one example_transfer example_schedule example_controller \<noteq> None
   \<and> fst (the (at91_usart_spi_transfer_one example_transfer example_schedule example_controller)) = 0
   \<and> rx_buf (current_transfer (snd (the
         (at91_usart_spi_transfer_one example_transfer example_schedule example_controller))))
       = [0xAA, 0xBB, 0xCC]
   \<and> current_tx_remaining_bytes (snd (the
         (at91_usart_spi_transfer_one example_transfer example_schedule example_controller))) = 0
   \<and> current_rx_remaining_bytes (snd (the
         (at91_usart_spi_transfer_one example_transfer example_schedule example_controller))) = 0
   \<and> \<not> xfer_failed (snd (the
         (at91_usart_spi_transfer_one example_transfer example_schedule example_controller)))"
proof -
  obtain r aus' where
    t: "at91_usart_spi_transfer_one example_transfer example_schedule example_controller
          = Some (r, aus')"
    and r: "r = 0" and b: "rx_buf (current_transfer aus') = [0xAA, 0xBB, 0xCC]"
    by (simp add: example_defs eval_defs)
  from transfer_one_driving_loop [of example_transfer 0 0 0 0 0 example_controller
      example_schedule example_controller r aus'] t r
  have "current_tx_remaining_bytes aus' = 0 \<and> current_rx_remaining_bytes aus' = 0
        \<and> \<not> xfer_failed aus'"
    by blast
  with t r b show ?thesis by simp
qed

section \<open>The interrupt handler\<close>

text \<open>
  Claim C2, as it is written, fails when the receive counter is already zero: with
  receive-ready set and no overrun the handler still answers \<^verbatim>\<open>IRQ_HANDLED\<close>, but it
  reads no byte from the data-in register and leaves the counter at zero instead of
  decrementing it.
\<close>

theorem interrupt_rx_ready_counterexample:
  "fst (at91_usart_spi_interrupt 1 0xAA example_controller) = IRQ_HANDLED
   \<and> current_rx_remaining_bytes (snd (at91_usart_spi_interrupt 1 0xAA example_controller))
       \<noteq> current_rx_remaining_bytes example_controller - 1
   \<and> Readb US_RHR 0xAA \<notin> set (trace (snd (at91_usart_spi_interrupt 1 0xAA example_controller)))"
  by (simp add: interrupt_unfold example_controller_def US_IR_OVRE_def US_IR_RXRDY_def BIT_def)


text \<open>
  Claim C2, amended. For every status value read by the handler, under the lock:
  with the overrun bit set it sets the failure flag, writes overrun and receive-ready
  to the interrupt-disable register, touches neither the data-in register nor the
  cursor, and returns \<^verbatim>\<open>IRQ_HANDLED\<close>, whatever the receive-ready bit says; else with
  receive-ready set and a nonzero receive counter it reads one byte from the data-in
  register, stores it at \<open>rx_buf[len - remaining]\<close>, decrements the counter and returns
  \<^verbatim>\<open>IRQ_HANDLED\<close>; else with receive-ready set and the counter at zero it returns
  \<^verbatim>\<open>IRQ_HANDLED\<close> and changes nothing but the status snapshot; else it returns
  \<^verbatim>\<open>IRQ_NONE\<close>.
\<close>

theorem interrupt_handler_cases:
  "at91_usart_spi_interrupt csr rhr aus =
     (if csr AND US_IR_OVRE \<noteq> 0 then
        (IRQ_HANDLED,
         aus\<lparr>regs := (regs aus)\<lparr>imr := imr (regs aus) AND NOT (US_IR_OVRE OR US_IR_RXRDY)\<rparr>,
             status := csr, xfer_failed := True,
             trace := trace aus @ [SpinLock, Readl US_CSR csr, StoreStatus csr, StoreFailed True,
                                   Writel US_IDR (US_IR_OVRE OR US_IR_RXRDY), SpinUnlock]\<rparr>)
      else if csr AND US_IR_RXRDY \<noteq> 0 then
        (if current_rx_remaining_bytes aus \<noteq> 0 then
           (IRQ_HANDLED,
            aus\<lparr>current_transfer := (current_transfer aus)
                   \<lparr>rx_buf := (rx_buf (current_transfer aus))
                      [unat (len (current_transfer aus) - current_rx_remaining_bytes aus) := rhr]\<rparr>,
                current_rx_remaining_bytes := current_rx_remaining_bytes aus - 1,
                status := csr,
                trace := trace aus @ [SpinLock, Readl US_CSR csr, StoreStatus csr, Readb US_RHR rhr,
                   StoreRx (unat (len (current_transfer aus) - current_rx_remaining_bytes aus)) rhr,
                   DecRxRemaining, SpinUnlock]\<rparr>)
         else (IRQ_HANDLED,
               aus\<lparr>status := csr,
                   trace := trace aus @ [SpinLock, Readl US_CSR csr, StoreStatus csr, SpinUnlock]\<rparr>))
      else (IRQ_NONE,
            aus\<lparr>status := csr,
                trace := trace aus @ [SpinLock, Readl US_CSR csr, StoreStatus csr, SpinUnlock]\<rparr>))"
  by (rule interrupt_unfold)

theorem interrupt_handler_cases_witness:
  "at91_usart_spi_interrupt 0x21 0xBB (example_controller\<lparr>current_rx_remaining_bytes := 2\<rparr>) =
     (IRQ_HANDLED,
      example_controller
        \<lparr>regs := \<lparr>mr = 0x1400CE, imr = 0, brgr = 0\<rparr>,
         current_rx_remaining_bytes := 2, status := 0x21, xfer_failed := True,
         trace := [SpinLock, Readl US_CSR 0x21, StoreStatus 0x21, StoreFailed True,
                   Writel US_IDR 0x21, SpinUnlock]\<rparr>)
   \<and> at91_usart_spi_interrupt 0x01 0xBB (example_controller\<lparr>current_rx_remaining_bytes := 2\<rparr>) =
     (IRQ_HANDLED,
      example_controller
        \<lparr>current_transfer := example_transfer\<lparr>rx_buf := [0, 0xBB, 0]\<rparr>,
         current_rx_remaining_bytes := 1, status := 0x01,
         trace := [SpinLock, Readl US_CSR 0x01, StoreStatus 0x01, Readb US_RHR 0xBB,
                   StoreRx 1 0xBB, DecRxRemaining, SpinUnlock]\<rparr>)
   \<and> fst (at91_usart_spi_interrupt 0x02 0xBB example_controller) = IRQ_NONE"
  using interrupt_handler_cases [of "0x21" "0xBB" "example_controller\<lparr>current_rx_remaining_bytes := 2\<rparr>"]
    interrupt_handler_cases [of "0x01" "0xBB" "example_controller\<lparr>current_rx_remaining_bytes := 2\<rparr>"]
    interrupt_handler_cases [of "0x02" "0xBB" example_controller]
  by (simp add: example_defs us_values)
section \<open>Per-device setup\<close>

text \<open>
  Claim C6. For a device whose word width is not 8 bits, setup returns \<^verbatim>\<open>-EINVAL\<close>;
  the device, with its \<^verbatim>\<open>controller_state\<close>, is as before the call, and the only thing
  the call has done is read the mode register: the allocator is not called and nothing
  is stored.
\<close>

theorem setup_rejects_word_width:
  "bits_per_word spi \<noteq> 8 \<Longrightarrow>
   at91_usart_spi_setup alloc_ok spi aus =
     (- EINVAL, spi, aus\<lparr>trace := trace aus @ [Readl US_MR (mr (regs aus))]\<rparr>)"
  by (simp add: at91_usart_spi_setup_def at91_usart_spi_readl_MR_def Let_def)

theorem setup_rejects_word_width_witness:
  "bits_per_word (example_device\<lparr>bits_per_word := 16\<rparr>) \<noteq> 8
   \<and> at91_usart_spi_setup True (example_device\<lparr>bits_per_word := 16\<rparr>) example_controller =
       (- 22, example_device\<lparr>bits_per_word := 16\<rparr>,
        example_controller\<lparr>trace := [Readl US_MR 0x1400CE]\<rparr>)"
  using setup_rejects_word_width [of "example_device\<lparr>bits_per_word := 16\<rparr>" True example_controller]
  by (simp add: example_defs EINVAL_def)

lemma setup_value:
  assumes "bits_per_word spi = 8" "controller_state spi \<noteq> None \<or> alloc_ok"
  shows "\<exists>aus'. at91_usart_spi_setup alloc_ok spi aus =
     (0, spi\<lparr>controller_state := Some
        (let mr1 = (if mode spi AND SPI_CPOL \<noteq> 0 then mr (regs aus) OR BIT 16
                    else mr (regs aus) AND NOT (BIT 16));
             mr2 = (if mode spi AND SPI_CPHA \<noteq> 0 then mr1 OR BIT 8 else mr1 AND NOT (BIT 8))
         in (if mode spi AND SPI_LOOP \<noteq> 0 then mr2 OR BIT 15 else mr2 AND NOT (BIT 15)))\<rparr>,
      aus')
     \<and> regs aus' = regs aus
     \<and> (controller_state spi \<noteq> None \<longrightarrow>
          trace aus' = trace aus @ [Readl US_MR (mr (regs aus))])"
  using assms
  by (cases "controller_state spi")
     (auto simp: at91_usart_spi_setup_def at91_usart_spi_readl_MR_def Let_def
        US_MR_CPOL_def US_MR_CPHA_def US_MR_LOOP_def)

text \<open>
  Claim C10. For a device with 8-bit words, when the allocation succeeds or the device
  already has its state, setup returns 0 and the value it caches is the mode register
  as read during the call with three bits replaced: bit 16 (clock polarity), bit 8
  (clock phase) and bit 15 (loopback) follow the device's mode flags, every other bit
  is the bit of the mode register; no register is written. A device that already has
  its state gets the new value stored over the old one, whatever the allocator would
  say: the allocator is not called.
\<close>

theorem setup_caches_live_mode:
  assumes "bits_per_word spi = 8" and "controller_state spi \<noteq> None \<or> alloc_ok"
  shows "\<exists>v aus'. at91_usart_spi_setup alloc_ok spi aus =
            (0, spi\<lparr>controller_state := Some v\<rparr>, aus')
     \<and> regs aus' = regs aus
     \<and> (\<forall>n. n \<notin> {8, 15, 16} \<longrightarrow> bit v n = bit (mr (regs aus)) n)
     \<and> bit v 16 = (mode spi AND SPI_CPOL \<noteq> 0)
     \<and> bit v 8 = (mode spi AND SPI_CPHA \<noteq> 0)
     \<and> bit v 15 = (mode spi AND SPI_LOOP \<noteq> 0)
     \<and> (controller_state spi \<noteq> None \<longrightarrow>
          trace aus' = trace aus @ [Readl US_MR (mr (regs aus))])"
proof -
  from setup_value [OF assms, of aus] obtain aus' v where
    v: "v = (let mr1 = (if mode spi AND SPI_CPOL \<noteq> 0 then mr (regs aus) OR BIT 16
                        else mr (regs aus) AND NOT (BIT 16));
                 mr2 = (if mode spi AND SPI_CPHA \<noteq> 0 then mr1 OR BIT 8 else mr1 AND NOT (BIT 8))
             in (if mode spi AND SPI_LOOP \<noteq> 0 then mr2 OR BIT 15 else mr2 AND NOT (BIT 15)))"
    and r: "at91_usart_spi_setup alloc_ok spi aus = (0, spi\<lparr>controller_state := Some v\<rparr>, aus')"
      "regs aus' = regs aus"
      "controller_state spi \<noteq> None \<longrightarrow> trace aus' = trace aus @ [Readl US_MR (mr (regs aus))]"
    by auto
  have "\<forall>n. n \<notin> {8, 15, 16} \<longrightarrow> bit v n = bit (mr (regs aus)) n"
    by (auto simp: v Let_def bit_and_iff bit_or_iff bit_not_iff bit_BIT dest: bit_imp_le_length)
  moreover have "bit v 16 = (mode spi AND SPI_CPOL \<noteq> 0)"
    "bit v 8 = (mode spi AND SPI_CPHA \<noteq> 0)" "bit v 15 = (mode spi AND SPI_LOOP \<noteq> 0)"
    by (auto simp: v Let_def bit_and_iff bit_or_iff bit_not_iff bit_BIT)
  ultimately show ?thesis using r by blast
qed

text \<open>
  The example device in mode 3 on a mode register that holds \<^verbatim>\<open>US_INIT\<close>, then the
  same device, now in mode 0, set up again after the mode register has changed, with an
  allocator that would fail: the second value replaces the first.
\<close>

theorem setup_caches_live_mode_witness:
  "at91_usart_spi_setup True example_device example_controller =
     (0, example_device\<lparr>controller_state := Some 0x1501CE\<rparr>,
      example_controller\<lparr>trace := [Readl US_MR 0x1400CE, Kzalloc True]\<rparr>)
   \<and> at91_usart_spi_setup False
        (example_device\<lparr>mode := 0, controller_state := Some 0x1501CE\<rparr>)
        (example_controller\<lparr>regs := \<lparr>mr = 0x8FFF, imr = 0x21, brgr = 0\<rparr>\<rparr>) =
     (0, example_device\<lparr>mode := 0, controller_state := Some 0x0EFF\<rparr>,
      example_controller\<lparr>regs := \<lparr>mr = 0x8FFF, imr = 0x21, brgr = 0\<rparr>,
                         trace := [Readl US_MR 0x8FFF]\<rparr>)"
proof -
  have a: "bits_per_word example_device = 8" "controller_state example_device \<noteq> None \<or> True"
    by (simp_all add: example_defs)
  have b: "bits_per_word (example_device\<lparr>mode := 0, controller_state := Some 0x1501CE\<rparr>) = 8"
    "controller_state (example_device\<lparr>mode := 0, controller_state := Some 0x1501CE\<rparr>) \<noteq> None
     \<or> False"
    by (simp_all add: example_defs)
  show ?thesis
    using setup_caches_live_mode [OF a, of example_controller]
      setup_caches_live_mode [OF b, of "example_controller\<lparr>regs := \<lparr>mr = 0x8FFF, imr = 0x21, brgr = 0\<rparr>\<rparr>"]
    by (simp add: example_defs at91_usart_spi_setup_def at91_usart_spi_readl_MR_def Let_def
        us_values SPI_CPOL_def SPI_CPHA_def SPI_LOOP_def)
qed

section \<open>The message bracket\<close>

text \<open>
  Claim C7. For every controller state and every cached mode value of the device,
  \<^verbatim>\<open>prepare_message\<close> followed at once by \<^verbatim>\<open>unprepare_message\<close> returns 0 twice and
  leaves the mode register equal to the cached value and the overrun and receive-ready
  sources disabled in the interrupt mask.
\<close>

theorem prepare_unprepare_message:
  assumes "controller_state spi = Some v"
  shows "\<exists>aus1 aus2. at91_usart_spi_prepare_message spi aus = Some (0, aus1)
     \<and> at91_usart_spi_unprepare_message aus1 = (0, aus2)
     \<and> mr (regs aus2) = v
     \<and> imr (regs aus2) AND US_IR_OVRE = 0
     \<and> imr (regs aus2) AND US_IR_RXRDY = 0"
  using assms
  apply (simp add: at91_usart_spi_prepare_message_def at91_usart_spi_unprepare_message_def
      Let_def at91_usart_spi_writel_def reg_write_def)
  apply (simp add: US_OVRE_RXRDY_IRQS_def US_IR_OVRE_def US_IR_RXRDY_def)
  apply (auto simp: bit_eq_iff bit_and_iff bit_or_iff bit_not_iff bit_BIT)
  done

theorem prepare_unprepare_message_witness:
  "controller_state (example_device\<lparr>controller_state := Some 0x1501CE\<rparr>) = Some 0x1501CE
   \<and> at91_usart_spi_prepare_message (example_device\<lparr>controller_state := Some 0x1501CE\<rparr>)
        example_controller \<noteq> None
   \<and> mr (regs (snd (at91_usart_spi_unprepare_message (snd (the
        (at91_usart_spi_prepare_message (example_device\<lparr>controller_state := Some 0x1501CE\<rparr>)
           example_controller)))))) = 0x1501CE
   \<and> imr (regs (snd (at91_usart_spi_unprepare_message (snd (the
        (at91_usart_spi_prepare_message (example_device\<lparr>controller_state := Some 0x1501CE\<rparr>)
           example_controller)))))) = 0"
proof -
  have a: "controller_state (example_device\<lparr>controller_state := Some 0x1501CE\<rparr>) = Some 0x1501CE"
    by simp
  show ?thesis
    using prepare_unprepare_message [OF a, of example_controller]
    by (simp add: example_defs at91_usart_spi_prepare_message_def
        at91_usart_spi_unprepare_message_def Let_def at91_usart_spi_writel_def reg_write_def
        us_values)
qed

section \<open>The clock divider\<close>

lemma ceil_div_nat:
  fixes a b :: nat
  assumes "0 < b"
  shows "\<lceil>real a / real b\<rceil> = int ((a + b - 1) div b)"
proof (rule ceiling_unique)
  define q where "q = (a + b - 1) div b"
  have 1: "q * b \<le> a + b - 1" by (simp add: q_def)
  have 2: "a + b - 1 < b + q * b"
    unfolding q_def using assms by (rule dividend_less_div_times)
  from 1 assms have "q * b + 1 \<le> a + b" by simp
  then have "real (q * b + 1) \<le> real (a + b)" by (simp only: of_nat_le_iff)
  then have "(real q - 1) * real b < real a" by (simp add: algebra_simps)
  with assms have "real q - 1 < real a / real b" by (simp add: pos_less_divide_eq)
  then show "real_of_int (int ((a + b - 1) div b)) - 1 < real a / real b"
    by (simp add: q_def)
  from 2 assms have "a \<le> q * b" by simp
  then have "real a \<le> real (q * b)" by (simp only: of_nat_le_iff)
  with assms have "real a / real b \<le> real q" by (simp add: pos_divide_le_eq)
  then show "real a / real b \<le> real_of_int (int ((a + b - 1) div b))"
    by (simp add: q_def)
qed

text \<open>The macro computes the rounded-up quotient as long as its sum does not wrap.\<close>

lemma DIV_ROUND_UP_unat:
  assumes "d \<noteq> 0" "unat n + unat d \<le> 2 ^ 32"
  shows "unat (DIV_ROUND_UP n d) = (unat n + unat d - 1) div unat d"
proof -
  from assms(1) have p: "0 < unat d" by (simp add: unat_gt_0)
  from assms(1) have m: "unat (d - 1) = unat d - 1" by (rule unat_minus_one)
  with p assms(2) have "unat n + unat (d - 1) < 2 ^ LENGTH(32)" by simp
  then have "unat (n + (d - 1)) = unat n + unat (d - 1)" by (simp only: unat_add_lem)
  with m p have "unat (n + d - 1) = unat n + unat d - 1" by (simp add: add_diff_eq)
  then show ?thesis by (simp add: DIV_ROUND_UP_def unat_div)
qed

lemma DIV_ROUND_UP_ceiling:
  assumes "d \<noteq> 0" "unat n + unat d \<le> 2 ^ 32"
  shows "int (unat (DIV_ROUND_UP n d)) = \<lceil>real (unat n) / real (unat d)\<rceil>"
proof -
  from assms(1) have "0 < unat d" by (simp add: unat_gt_0)
  then show ?thesis
    by (simp only: DIV_ROUND_UP_unat [OF assms] ceil_div_nat)
qed

lemma divider_bounds:
  fixes c s :: nat
  assumes c: "26 \<le> c" "c \<le> 3681400539"
    and lo: "(c + 65535) div 65536 \<le> s" and hi: "s \<le> (c + 5) div 6"
  shows "0 < s" "c + s \<le> 2 ^ 32" "6 \<le> (c + s - 1) div s" "(c + s - 1) div s \<le> 65536"
proof -
  from c(1) have "1 \<le> (c + 65535) div 65536" by (simp add: less_eq_div_iff_mult_less_eq)
  with lo show p: "0 < s" by simp
  from hi have h6: "s * 6 \<le> c + 5" by (simp add: less_eq_div_iff_mult_less_eq)
  with c(2) show "c + s \<le> 2 ^ 32" by simp
  from h6 c(1) have "6 * s \<le> c + s - 1" by simp
  with p show "6 \<le> (c + s - 1) div s" by (simp add: less_eq_div_iff_mult_less_eq)
  have "c + 65535 < 65536 + ((c + 65535) div 65536) * 65536"
    by (rule dividend_less_div_times) simp
  with lo have "c \<le> s * 65536" by simp
  with p have "c + s - 1 < 65537 * s" by simp
  with p have "(c + s - 1) div s < 65537" by (simp add: div_less_iff_less_mult)
  then show "(c + s - 1) div s \<le> 65536" by simp
qed

lemma probe_success:
  assumes "at91_usart_spi_probe env aus = (0, Some ctlr, aus')"
  shows "max_speed_hz ctlr = DIV_ROUND_UP (pe_clk_rate env) US_MIN_CLK_DIV"
    and "min_speed_hz ctlr = DIV_ROUND_UP (pe_clk_rate env) US_MAX_CLK_DIV"
    and "spi_clk aus' = pe_clk_rate env"
  using assms
  by (auto simp: at91_usart_spi_probe_def Let_def at91_usart_spi_init_def at91_usart_spi_writel_def
      EINVAL_def ENOMEM_def split: if_splits)

lemmas probe_eval =
  at91_usart_spi_probe_def at91_usart_gpio_setup_def Let_def at91_usart_spi_init_def
  at91_usart_spi_set_xfer_speed_def
  at91_usart_spi_writel_def reg_write_def DIV_ROUND_UP_def us_values

text \<open>
  Claim C4, as it is written, fails in three places. On a 131.072 MHz clock the
  advertised minimum is 2000 Hz, and a transfer at 2000 Hz gets the divider 65536, which
  is not below 65536. On a 25 Hz clock the advertised maximum is 5 Hz, and a transfer at
  5 Hz gets the divider 5, which is below 6. On a 3681400540 Hz clock the advertised
  maximum is 613566757 Hz, and for a transfer at that speed the 32-bit sum wraps to
  zero: the divider written is 0, while the exact rounded-up quotient is 6.
\<close>

theorem divider_range_counterexample:
  "min_speed_hz (the (fst (snd (at91_usart_spi_probe
      (example_env\<lparr>pe_clk_rate := 131072000\<rparr>) example_controller)))) \<le> 2000
   \<and> 2000 \<le> max_speed_hz (the (fst (snd (at91_usart_spi_probe
      (example_env\<lparr>pe_clk_rate := 131072000\<rparr>) example_controller))))
   \<and> brgr (regs (the (at91_usart_spi_set_xfer_speed
      (example_controller\<lparr>spi_clk := 131072000\<rparr>) (example_transfer\<lparr>speed_hz := 2000\<rparr>)))) = 65536
   \<and> \<not> unat (brgr (regs (the (at91_usart_spi_set_xfer_speed
      (example_controller\<lparr>spi_clk := 131072000\<rparr>) (example_transfer\<lparr>speed_hz := 2000\<rparr>))))) < 65536
   \<and> min_speed_hz (the (fst (snd (at91_usart_spi_probe
      (example_env\<lparr>pe_clk_rate := 25\<rparr>) example_controller)))) \<le> 5
   \<and> 5 \<le> max_speed_hz (the (fst (snd (at91_usart_spi_probe
      (example_env\<lparr>pe_clk_rate := 25\<rparr>) example_controller))))
   \<and> brgr (regs (the (at91_usart_spi_set_xfer_speed
      (example_controller\<lparr>spi_clk := 25\<rparr>) (example_transfer\<lparr>speed_hz := 5\<rparr>)))) = 5
   \<and> min_speed_hz (the (fst (snd (at91_usart_spi_probe
      (example_env\<lparr>pe_clk_rate := 3681400540\<rparr>) example_controller)))) \<le> 613566757
   \<and> 613566757 \<le> max_speed_hz (the (fst (snd (at91_usart_spi_probe
      (example_env\<lparr>pe_clk_rate := 3681400540\<rparr>) example_controller))))
   \<and> brgr (regs (the (at91_usart_spi_set_xfer_speed
      (example_controller\<lparr>spi_clk := 3681400540\<rparr>) (example_transfer\<lparr>speed_hz := 613566757\<rparr>)))) = 0
   \<and> \<lceil>real (unat (3681400540 :: u32)) / real (unat (613566757 :: u32))\<rceil> = 6"
proof -
  have "\<lceil>real (3681400540 :: nat) / real (613566757 :: nat)\<rceil> = 6"
    by (simp add: ceil_div_nat)
  then show ?thesis
    by (simp add: example_defs probe_eval)
qed

text \<open>
  Claim C4, amended. For a controller attached on a base clock between 26 Hz and
  3681400539 Hz and a transfer whose speed lies within the advertised
  \<open>[min_speed_hz, max_speed_hz]\<close>, the value written to the baud-rate generator equals
  the exact \<open>ceil (base_clock / speed_hz)\<close> and lies between 6 and 65536, both ends
  included.
\<close>

theorem set_xfer_speed_divider:
  assumes probe: "at91_usart_spi_probe env aus0 = (0, Some ctlr, aus1)"
    and same: "spi_clk aus = spi_clk aus1"
    and clk: "26 \<le> unat (spi_clk aus)" "unat (spi_clk aus) \<le> 3681400539"
    and range: "min_speed_hz ctlr \<le> speed_hz xfer" "speed_hz xfer \<le> max_speed_hz ctlr"
  shows "\<exists>d aus'. at91_usart_spi_set_xfer_speed aus xfer = Some aus'
    \<and> brgr (regs aus') = d
    \<and> trace aus' = trace aus @ [Writel US_BRGR d]
    \<and> int (unat d) = \<lceil>real (unat (spi_clk aus)) / real (unat (speed_hz xfer))\<rceil>
    \<and> 6 \<le> unat d \<and> unat d \<le> 65536"
proof -
  define c where "c = unat (spi_clk aus)"
  define s where "s = unat (speed_hz xfer)"
  have six: "US_MIN_CLK_DIV \<noteq> 0" "unat US_MIN_CLK_DIV = 6"
    and big: "US_MAX_CLK_DIV \<noteq> 0" "unat US_MAX_CLK_DIV = 65536"
    by (simp_all add: US_MIN_CLK_DIV_def US_MAX_CLK_DIV_def BIT_def)
  from probe_success [OF probe] same have
    mx: "max_speed_hz ctlr = DIV_ROUND_UP (spi_clk aus) US_MIN_CLK_DIV"
    and mn: "min_speed_hz ctlr = DIV_ROUND_UP (spi_clk aus) US_MAX_CLK_DIV"
    by simp_all
  from clk(2) six have "unat (spi_clk aus) + unat US_MIN_CLK_DIV \<le> 2 ^ 32" by simp
  from DIV_ROUND_UP_unat [OF six(1) this] six(2)
  have umx: "unat (max_speed_hz ctlr) = (c + 5) div 6" by (simp add: mx c_def)
  from clk(2) big have "unat (spi_clk aus) + unat US_MAX_CLK_DIV \<le> 2 ^ 32" by simp
  from DIV_ROUND_UP_unat [OF big(1) this] big(2)
  have umn: "unat (min_speed_hz ctlr) = (c + 65535) div 65536" by (simp add: mn c_def)
  from range umx umn have lo: "(c + 65535) div 65536 \<le> s" and hi: "s \<le> (c + 5) div 6"
    by (simp_all add: word_le_nat_alt s_def)
  from clk have c: "26 \<le> c" "c \<le> 3681400539" by (simp_all add: c_def)
  note b = divider_bounds [OF c lo hi]
  from b(1) have nz: "speed_hz xfer \<noteq> 0" by (auto simp: s_def)
  from b(2) have nw: "unat (spi_clk aus) + unat (speed_hz xfer) \<le> 2 ^ 32"
    by (simp add: c_def s_def)
  define d where "d = DIV_ROUND_UP (spi_clk aus) (speed_hz xfer)"
  from DIV_ROUND_UP_unat [OF nz nw] have ud: "unat d = (c + s - 1) div s"
    by (simp add: d_def c_def s_def)
  from DIV_ROUND_UP_ceiling [OF nz nw]
  have ce: "int (unat d) = \<lceil>real (unat (spi_clk aus)) / real (unat (speed_hz xfer))\<rceil>"
    by (simp add: d_def)
  from nz have r: "at91_usart_spi_set_xfer_speed aus xfer =
      Some (at91_usart_spi_writel US_BRGR d aus)"
    by (simp add: at91_usart_spi_set_xfer_speed_def d_def)
  have w: "brgr (regs (at91_usart_spi_writel US_BRGR d aus)) = d"
    "trace (at91_usart_spi_writel US_BRGR d aus) = trace aus @ [Writel US_BRGR d]"
    by (simp_all add: at91_usart_spi_writel_def reg_write_def)
  from ud b(3) b(4) have g: "6 \<le> unat d" "unat d \<le> 65536" by simp_all
  from r w ce g show ?thesis by blast
qed

theorem set_xfer_speed_divider_witness:
  "fst (at91_usart_spi_probe example_env example_controller) = 0
   \<and> min_speed_hz (the (fst (snd (at91_usart_spi_probe example_env example_controller))))
       \<le> speed_hz example_transfer
   \<and> speed_hz example_transfer
       \<le> max_speed_hz (the (fst (snd (at91_usart_spi_probe example_env example_controller))))
   \<and> at91_usart_spi_set_xfer_speed example_controller example_transfer \<noteq> None
   \<and> brgr (regs (the (at91_usart_spi_set_xfer_speed example_controller example_transfer))) = 150
   \<and> \<lceil>real (unat (spi_clk example_controller)) / real (unat (speed_hz example_transfer))\<rceil> = 150"
proof -
  obtain ctlr aus1 where
    p: "at91_usart_spi_probe example_env example_controller = (0, Some ctlr, aus1)"
    and c: "ctlr = \<lparr>max_speed_hz = 25000000, min_speed_hz = 2289\<rparr>"
    and a: "spi_clk aus1 = 150000000"
    by (simp add: example_defs probe_eval)
  have same: "spi_clk example_controller = spi_clk aus1"
    and clk: "26 \<le> unat (spi_clk example_controller)"
      "unat (spi_clk example_controller) \<le> 3681400539"
    and range: "min_speed_hz ctlr \<le> speed_hz example_transfer"
      "speed_hz example_transfer \<le> max_speed_hz ctlr"
    by (simp_all add: example_defs a c)
  from set_xfer_speed_divider [OF p same clk range] obtain d aus' where
    r: "at91_usart_spi_set_xfer_speed example_controller example_transfer = Some aus'"
      "brgr (regs aus') = d"
      "int (unat d) = \<lceil>real (unat (spi_clk example_controller))
         / real (unat (speed_hz example_transfer))\<rceil>"
    by blast
  have e: "brgr (regs (the (at91_usart_spi_set_xfer_speed example_controller example_transfer)))
      = 150"
    by (simp add: example_defs probe_eval)
  with r have "d = 150" by simp
  with r(3) have "\<lceil>real (unat (spi_clk example_controller))
      / real (unat (speed_hz example_transfer))\<rceil> = 150"
    by simp
  with p c r(1) e range show ?thesis by simp
qed

section \<open>The advertised speed bounds\<close>

text \<open>
  Claim C8, as it is written, fails at the top of the range of \<^verbatim>\<open>unsigned long\<close>, in
  which \<^verbatim>\<open>clk_get_rate\<close> gives the rate and the macro adds the divisor minus one: for a
  clock rate of 4294967295 Hz both sums wrap, and the controller is attached with
  \<open>max_speed_hz = 0\<close> and \<open>min_speed_hz = 0\<close>, where the exact values are 715827883 and
  65536.
\<close>

theorem advertised_bounds_counterexample:
  "fst (at91_usart_spi_probe (example_env\<lparr>pe_clk_rate := 0xFFFFFFFF\<rparr>) example_controller) = 0
   \<and> max_speed_hz (the (fst (snd (at91_usart_spi_probe
        (example_env\<lparr>pe_clk_rate := 0xFFFFFFFF\<rparr>) example_controller)))) = 0
   \<and> min_speed_hz (the (fst (snd (at91_usart_spi_probe
        (example_env\<lparr>pe_clk_rate := 0xFFFFFFFF\<rparr>) example_controller)))) = 0
   \<and> \<lceil>real (unat (0xFFFFFFFF :: u32)) / 6\<rceil> = 715827883
   \<and> \<lceil>real (unat (0xFFFFFFFF :: u32)) / 65536\<rceil> = 65536"
proof -
  have "\<lceil>real (4294967295 :: nat) / real (6 :: nat)\<rceil> = 715827883"
    "\<lceil>real (4294967295 :: nat) / real (65536 :: nat)\<rceil> = 65536"
    by (simp_all add: ceil_div_nat)
  then show ?thesis
    by (simp add: example_defs probe_eval)
qed

text \<open>
  Claim C8, amended. For every base clock rate of at most 4294901760 Hz
  (\<open>2 ^ 32 - 65536\<close>), a successful attach advertises
  \<open>max_speed_hz = ceil (rate / 6)\<close> and \<open>min_speed_hz = ceil (rate / 65536)\<close>.
\<close>

theorem probe_advertised_bounds:
  assumes "at91_usart_spi_probe env aus = (0, Some ctlr, aus')"
    and "unat (pe_clk_rate env) \<le> 4294901760"
  shows "int (unat (max_speed_hz ctlr)) = \<lceil>real (unat (pe_clk_rate env)) / 6\<rceil>
    \<and> int (unat (min_speed_hz ctlr)) = \<lceil>real (unat (pe_clk_rate env)) / 65536\<rceil>"
proof -
  have six: "US_MIN_CLK_DIV \<noteq> 0" "unat US_MIN_CLK_DIV = 6"
    and big: "US_MAX_CLK_DIV \<noteq> 0" "unat US_MAX_CLK_DIV = 65536"
    by (simp_all add: US_MIN_CLK_DIV_def US_MAX_CLK_DIV_def BIT_def)
  from assms(2) six have a: "unat (pe_clk_rate env) + unat US_MIN_CLK_DIV \<le> 2 ^ 32" by simp
  from assms(2) big have b: "unat (pe_clk_rate env) + unat US_MAX_CLK_DIV \<le> 2 ^ 32" by simp
  from DIV_ROUND_UP_ceiling [OF six(1) a] DIV_ROUND_UP_ceiling [OF big(1) b]
    probe_success [OF assms(1)] six(2) big(2)
  show ?thesis by simp
qed

theorem probe_advertised_bounds_witness:
  "fst (at91_usart_spi_probe example_env example_controller) = 0
   \<and> unat (pe_clk_rate example_env) \<le> 4294901760
   \<and> max_speed_hz (the (fst (snd (at91_usart_spi_probe example_env example_controller))))
       = 25000000
   \<and> min_speed_hz (the (fst (snd (at91_usart_spi_probe example_env example_controller))))
       = 2289
   \<and> \<lceil>real (unat (pe_clk_rate example_env)) / 6\<rceil> = 25000000
   \<and> \<lceil>real (unat (pe_clk_rate example_env)) / 65536\<rceil> = 2289"
proof -
  obtain ctlr aus1 where
    p: "at91_usart_spi_probe example_env example_controller = (0, Some ctlr, aus1)"
    and c: "ctlr = \<lparr>max_speed_hz = 25000000, min_speed_hz = 2289\<rparr>"
    by (simp add: example_defs probe_eval)
  have r: "unat (pe_clk_rate example_env) \<le> 4294901760"
    by (simp add: example_defs)
  from probe_advertised_bounds [OF p r] c
  have "\<lceil>real (unat (pe_clk_rate example_env)) / 6\<rceil> = 25000000"
    "\<lceil>real (unat (pe_clk_rate example_env)) / 65536\<rceil> = 2289"
    by simp_all
  with p c r show ?thesis by simp
qed

section \<open>Overrun\<close>








text \<open>
  An overrun that is handled before line 227 has run is lost: the handler has masked
  both sources and line 227 clears the flag it has set. With at least one byte to
  receive the loop then never ends, whatever the schedule.
\<close>

lemma step_overrun_lost:
  assumes "len x \<noteq> 0" "overrun_lost c"
  shows "overrun_lost (step x e c)"
proof (cases c)
  case (Pair p aus)
  show ?thesis
  proof (cases e)
    case (Poll csr)
    with Pair assms show ?thesis
      by (cases p) (auto simp: poll_steps tx_unfold)
  next
    case (Irq csr rhr)
    with Pair assms show ?thesis
      by (cases p) (auto simp: step_Irq deliver_masked)
  qed
qed

lemma run_overrun_lost:
  "len x \<noteq> 0 \<Longrightarrow> overrun_lost c \<Longrightarrow> overrun_lost (run x sched c)"
  by (induction sched arbitrary: c) (simp_all add: step_overrun_lost)

lemma overrun_lost_never_returns:
  assumes "len x \<noteq> 0"
    and "run x pre (SetSpeed, aus0) = (p, aus)" "p = SetSpeed \<or> p = ClearFailed"
    and "imr (regs aus) AND NOT US_OVRE_RXRDY_IRQS = 0"
    and "csr AND US_IR_OVRE \<noteq> 0" "irq_raised csr aus"
  shows "at91_usart_spi_transfer_one x (pre @ Irq csr rhr # post) aus0 = None"
proof -
  from assms(4,5,6) have m: "imr (regs (deliver csr rhr aus)) = 0"
    by (simp add: deliver_def interrupt_unfold US_OVRE_RXRDY_IRQS_def)
  from assms(3) have s: "step x (Irq csr rhr) (p, aus) = (p, deliver csr rhr aus)"
    by (auto simp: step_Irq)
  from assms(3) m have "overrun_lost (p, deliver csr rhr aus)"
    by auto
  from run_overrun_lost [OF assms(1) this, of post]
  have "overrun_lost (run x (pre @ Irq csr rhr # post) (SetSpeed, aus0))"
    using assms(2) s by (simp add: run_append)
  then show ?thesis
    by (cases "run x (pre @ Irq csr rhr # post) (SetSpeed, aus0)";
        cases "fst (run x (pre @ Irq csr rhr # post) (SetSpeed, aus0))")
      (auto simp: at91_usart_spi_transfer_one_def)
qed




section \<open>Buffer indices\<close>








section \<open>Locking\<close>

lemma lock_after_append: "lock_after h (xs @ ys) = lock_after (lock_after h xs) ys"
  by (induction h xs rule: lock_after.induct) simp_all

lemma annotate_append: "annotate h (xs @ ys) = annotate h xs @ annotate (lock_after h xs) ys"
  by (induction h xs rule: annotate.induct) simp_all

lemma step_lock_free:
  "\<not> lock_held (trace (snd c)) \<Longrightarrow> \<not> lock_held (trace (snd (step x e c)))"
proof (cases c)
  case (Pair p aus)
  assume f: "\<not> lock_held (trace (snd c))"
  show ?thesis
  proof (cases e)
    case (Poll csr)
    with Pair f show ?thesis
      by (cases p) (simp_all add: poll_steps tx_unfold lock_held_def lock_after_append)
  next
    case (Irq csr rhr)
    with Pair f show ?thesis
      by (cases p)
        (simp_all add: step_Irq deliver_def interrupt_unfold lock_held_def lock_after_append)
  qed
qed

lemma step_lock_pattern:
  assumes "\<not> lock_held (trace (snd c))" "lock_pattern (trace (snd c))"
  shows "lock_pattern (trace (snd (step x e c)))"
proof (cases c)
  case (Pair p aus)
  show ?thesis
  proof (cases e)
    case (Poll csr)
    with Pair assms show ?thesis
      by (cases p)
        (simp_all add: poll_steps tx_unfold lock_held_def lock_pattern_def annotate_append)
  next
    case (Irq csr rhr)
    with Pair assms show ?thesis
      by (cases p)
        (simp_all add: step_Irq deliver_def interrupt_unfold lock_held_def lock_pattern_def
           annotate_append)
  qed
qed

lemma run_lock_pattern:
  "\<not> lock_held (trace (snd c)) \<Longrightarrow> lock_pattern (trace (snd c)) \<Longrightarrow>
   \<not> lock_held (trace (snd (run x sched c))) \<and> lock_pattern (trace (snd (run x sched c)))"
  by (induction sched arbitrary: c) (simp_all add: step_lock_free step_lock_pattern)

text \<open>
  Claim C5, as it is written, fails for the driving loop: the first iteration of the
  example transfer reads the status register with the lock free. The log of the call
  after eight steps of the polling context holds the write of the divider, the four
  stores that arm the transfer, the status read and the store of the snapshot, none of
  them under the lock.
\<close>

theorem polling_status_read_unlocked_counterexample:
  "annotate False (trace (snd (run example_transfer
        [Poll 0, Poll 0, Poll 0, Poll 0, Poll 0, Poll 0, Poll 0, Poll 2]
        (SetSpeed, example_controller))))
       = [(False, Writel US_BRGR 150), (False, StoreFailed False), (False, StoreTransfer),
          (False, StoreTxRemaining 3), (False, StoreRxRemaining 3),
          (False, Readl US_CSR 2), (False, StoreStatus 2)]
   \<and> \<not> status_reads_locked (trace (snd (run example_transfer
        [Poll 0, Poll 0, Poll 0, Poll 0, Poll 0, Poll 0, Poll 0, Poll 2]
        (SetSpeed, example_controller))))"
  by (simp add: example_defs eval_defs status_reads_locked_def)

text \<open>
  Claim C5, amended. The interrupt handler takes the lock first and releases it last,
  and everything it does lies between the two: it reads the status register and stores
  the snapshot there; if it changes the failure flag, it is by the store that sets the
  flag there; if it changes the receive counter, it is by the decrement there; if it
  changes the current transfer, it is by the store to the receive buffer there; it
  leaves the transmit counter alone. The driving loop never takes the lock: no step of
  the polling context contains a lock operation, so its status read and its transmit
  step run with the lock free, and so does its busy-wait. In every run that starts with
  the lock free, the lock is free again after every step; the busy-wait hint, the
  transmit-buffer load, the write to the data-out register, the decrement of the
  transmit counter, the arming of the cursor and the clearing of the failure flag are
  always made with the lock free; the read of the data-in register, the store to the
  receive buffer, the decrement of the receive counter and the setting of the failure
  flag are always made with the lock held.
\<close>

theorem lock_discipline:
  "(\<exists>body. trace (snd (at91_usart_spi_interrupt csr rhr aus))
              = trace aus @ [SpinLock] @ body @ [SpinUnlock]
       \<and> list_all (\<lambda>a. \<not> is_lock_op a) body
       \<and> Readl US_CSR csr \<in> set body \<and> StoreStatus csr \<in> set body
       \<and> (xfer_failed (snd (at91_usart_spi_interrupt csr rhr aus)) \<noteq> xfer_failed aus
            \<longrightarrow> StoreFailed True \<in> set body)
       \<and> (current_rx_remaining_bytes (snd (at91_usart_spi_interrupt csr rhr aus))
            \<noteq> current_rx_remaining_bytes aus \<longrightarrow> DecRxRemaining \<in> set body)
       \<and> (current_transfer (snd (at91_usart_spi_interrupt csr rhr aus)) \<noteq> current_transfer aus
            \<longrightarrow> StoreRx (rx_index (len (current_transfer aus))
                   (current_rx_remaining_bytes aus)) rhr \<in> set body)
       \<and> current_tx_remaining_bytes (snd (at91_usart_spi_interrupt csr rhr aus))
           = current_tx_remaining_bytes aus)
   \<and> (\<exists>acts. trace (snd (poll_step xfer csr' (p, aus))) = trace aus @ acts
       \<and> list_all (\<lambda>a. \<not> is_lock_op a) acts)
   \<and> (\<not> lock_held (trace aus) \<and> lock_pattern (trace aus) \<longrightarrow>
        \<not> lock_held (trace (snd (run xfer sched (p, aus))))
        \<and> lock_pattern (trace (snd (run xfer sched (p, aus)))))"
proof -
  have A: "\<exists>body. trace (snd (at91_usart_spi_interrupt csr rhr aus))
              = trace aus @ [SpinLock] @ body @ [SpinUnlock]
       \<and> list_all (\<lambda>a. \<not> is_lock_op a) body
       \<and> Readl US_CSR csr \<in> set body \<and> StoreStatus csr \<in> set body
       \<and> (xfer_failed (snd (at91_usart_spi_interrupt csr rhr aus)) \<noteq> xfer_failed aus
            \<longrightarrow> StoreFailed True \<in> set body)
       \<and> (current_rx_remaining_bytes (snd (at91_usart_spi_interrupt csr rhr aus))
            \<noteq> current_rx_remaining_bytes aus \<longrightarrow> DecRxRemaining \<in> set body)
       \<and> (current_transfer (snd (at91_usart_spi_interrupt csr rhr aus)) \<noteq> current_transfer aus
            \<longrightarrow> StoreRx (rx_index (len (current_transfer aus))
                   (current_rx_remaining_bytes aus)) rhr \<in> set body)
       \<and> current_tx_remaining_bytes (snd (at91_usart_spi_interrupt csr rhr aus))
           = current_tx_remaining_bytes aus"
    by (simp add: interrupt_unfold rx_index_unat)
  have B: "\<exists>acts. trace (snd (poll_step xfer csr' (p, aus))) = trace aus @ acts
       \<and> list_all (\<lambda>a. \<not> is_lock_op a) acts"
    by (cases p)
      (simp_all add: tx_unfold at91_usart_spi_read_status_def cpu_relax_def
         at91_usart_spi_set_xfer_speed_def at91_usart_spi_writel_def)
  have C: "\<not> lock_held (trace aus) \<and> lock_pattern (trace aus) \<longrightarrow>
        \<not> lock_held (trace (snd (run xfer sched (p, aus))))
        \<and> lock_pattern (trace (snd (run xfer sched (p, aus))))"
    using run_lock_pattern [of "(p, aus)" xfer sched] by simp
  from A B C show ?thesis by blast
qed

text \<open>
  The handler on the armed example controller, once for a status with overrun and once
  for a status with receive-ready, and the example transfer from its first statement.
\<close>

theorem lock_discipline_witness:
  "trace (snd (at91_usart_spi_interrupt 0x20 0xAA
       (example_controller\<lparr>current_tx_remaining_bytes := 3, current_rx_remaining_bytes := 3\<rparr>)))
     = [SpinLock, Readl US_CSR 0x20, StoreStatus 0x20, StoreFailed True, Writel US_IDR 0x21,
        SpinUnlock]
   \<and> xfer_failed (snd (at91_usart_spi_interrupt 0x20 0xAA
       (example_controller\<lparr>current_tx_remaining_bytes := 3, current_rx_remaining_bytes := 3\<rparr>)))
       \<noteq> xfer_failed
           (example_controller\<lparr>current_tx_remaining_bytes := 3, current_rx_remaining_bytes := 3\<rparr>)
   \<and> trace (snd (at91_usart_spi_interrupt 1 0xAA
       (example_controller\<lparr>current_tx_remaining_bytes := 3, current_rx_remaining_bytes := 3\<rparr>)))
     = [SpinLock, Readl US_CSR 1, StoreStatus 1, Readb US_RHR 0xAA, StoreRx 0 0xAA,
        DecRxRemaining, SpinUnlock]
   \<and> current_rx_remaining_bytes (snd (at91_usart_spi_interrupt 1 0xAA
       (example_controller\<lparr>current_tx_remaining_bytes := 3, current_rx_remaining_bytes := 3\<rparr>)))
       \<noteq> 3
   \<and> current_transfer (snd (at91_usart_spi_interrupt 1 0xAA
       (example_controller\<lparr>current_tx_remaining_bytes := 3, current_rx_remaining_bytes := 3\<rparr>)))
       \<noteq> example_transfer
   \<and> trace (snd (poll_step example_transfer 2 (ReadStatus,
       example_controller\<lparr>current_tx_remaining_bytes := 3, current_rx_remaining_bytes := 3\<rparr>)))
     = [Readl US_CSR 2, StoreStatus 2]
   \<and> \<not> lock_held (trace example_controller) \<and> lock_pattern (trace example_controller)
   \<and> \<not> lock_held (trace (snd (run example_transfer example_schedule
       (SetSpeed, example_controller))))
   \<and> lock_pattern (trace (snd (run example_transfer example_schedule
       (SetSpeed, example_controller))))"
  using lock_discipline [of "0x20" "0xAA"
      "example_controller\<lparr>current_tx_remaining_bytes := 3, current_rx_remaining_bytes := 3\<rparr>"
      example_transfer 2 ReadStatus "[]"]
    lock_discipline [of 1 "0xAA"
      "example_controller\<lparr>current_tx_remaining_bytes := 3, current_rx_remaining_bytes := 3\<rparr>"
      example_transfer 2 ReadStatus "[]"]
    lock_discipline [of 1 "0xAA" example_controller example_transfer 2 SetSpeed example_schedule]
  by (simp add: example_defs eval_defs lock_held_def lock_pattern_def)

end
